theory Spec2Isabelle
  imports Main "HOL-Library.Word"
begin

section \<open>Data model of the translation workflow (App.tsx)\<close>

text \<open>
  A JavaScript string is a sequence of UTF-16 code units; concatenation is list append and
  \<open>.length\<close> is the list length. \<open>js\<close> reads an ASCII literal as such a string.
\<close>

type_synonym jsstring = "16 word list"

definition js :: "string \<Rightarrow> jsstring" where
  "js cs = map (\<lambda>c. of_nat (of_char c)) cs"

datatype Status = Idle | Parsing | Ready | Translating | Complete | Error

datatype TranslationDirection = LaoToChinese | ChineseToLao

datatype DownloadMode = Translation | Bilingual

datatype InputMode = Upload | Text

text \<open>
  The browser's \<open>File\<close> object, as far as the application reads it. The field
  \<open>file\<close> of the state is written \<open>file'\<close> (\<open>file\<close> is a keyword of Isabelle).
\<close>

record File =
  name :: jsstring
  mimeType :: jsstring

record AppState =
  status :: Status
  file' :: "File option"
  fileContent :: jsstring
  direction :: TranslationDirection
  translatedText :: jsstring
  error :: "jsstring option"
  anonymize :: bool
  downloadMode :: DownloadMode
  inputMode :: InputMode

datatype AppAction =
    SET_INPUT_MODE InputMode
  | START_PARSING File
  | PARSE_SUCCESS jsstring
  | SET_TEXT_CONTENT jsstring
  | SET_ERROR jsstring
  | TRANSLATE
  | TRANSLATION_CHUNK jsstring
  | TRANSLATION_COMPLETE
  | RESET
  | SET_DIRECTION TranslationDirection
  | SET_ANONYMIZE bool
  | SET_DOWNLOAD_MODE DownloadMode

definition initialState :: AppState where
  "initialState =
     \<lparr> status = Idle, file' = None, fileContent = [], direction = LaoToChinese,
       translatedText = [], error = None, anonymize = True,
       downloadMode = Translation, inputMode = Upload \<rparr>"

section \<open>The reducer\<close>

text \<open>
  \<open>appReducer\<close>, one equation per \<open>case\<close> of the switch. The spread \<open>...state\<close> is a
  record update of \<open>state\<close>, the spread \<open>...initialState\<close> one of \<open>initialState\<close>.
  In \<open>SET_TEXT_CONTENT\<close> the payload is tested for truthiness: a string is truthy when it
  is not empty.
\<close>

fun appReducer :: "AppState \<Rightarrow> AppAction \<Rightarrow> AppState" where
  "appReducer state (SET_INPUT_MODE payload) = state\<lparr>inputMode := payload\<rparr>"
| "appReducer state (START_PARSING payload) =
     initialState\<lparr>status := Parsing, file' := Some payload, inputMode := Upload,
       direction := direction state, anonymize := anonymize state\<rparr>"
| "appReducer state (PARSE_SUCCESS payload) =
     state\<lparr>status := Ready, fileContent := payload\<rparr>"
| "appReducer state (SET_TEXT_CONTENT payload) =
     initialState\<lparr>status := (if payload \<noteq> [] then Ready else Idle),
       fileContent := payload, inputMode := Text,
       direction := direction state, anonymize := anonymize state\<rparr>"
| "appReducer state (SET_ERROR payload) =
     state\<lparr>status := Error, error := Some payload\<rparr>"
| "appReducer state TRANSLATE =
     state\<lparr>status := Translating, error := None, translatedText := []\<rparr>"
| "appReducer state (TRANSLATION_CHUNK payload) =
     state\<lparr>translatedText := translatedText state @ payload\<rparr>"
| "appReducer state TRANSLATION_COMPLETE = state\<lparr>status := Complete\<rparr>"
| "appReducer state RESET =
     initialState\<lparr>direction := direction state, anonymize := anonymize state,
       downloadMode := downloadMode state\<rparr>"
| "appReducer state (SET_DIRECTION payload) = state\<lparr>direction := payload\<rparr>"
| "appReducer state (SET_ANONYMIZE payload) = state\<lparr>anonymize := payload\<rparr>"
| "appReducer state (SET_DOWNLOAD_MODE payload) = state\<lparr>downloadMode := payload\<rparr>"

text \<open>
  \<open>dispatch\<close> queues an action; React applies the queued actions to the store in the
  order of the calls.
\<close>

definition dispatchAll :: "AppState \<Rightarrow> AppAction list \<Rightarrow> AppState" where
  "dispatchAll state actions = foldl appReducer state actions"

section \<open>The event handlers\<close>

text \<open>
  A value that a \<open>try\<close> block can catch: an \<open>Error\<close> object with its message, or
  any other thrown value. The handlers read the message of the former and fall back to
  a fixed text for the latter.
\<close>

datatype Thrown = ErrorObject jsstring | OtherValue

text \<open>
  \<open>handleFileSelect\<close>: the dispatches of one call, given the file and the outcome of the
  external \<open>parseFileContent\<close> (the text, or what it threw).
\<close>

definition handleFileSelect :: "File \<Rightarrow> Thrown + jsstring \<Rightarrow> AppAction list" where
  "handleFileSelect selectedFile parsed =
     START_PARSING selectedFile #
     (case parsed of
        Inr text \<Rightarrow> [PARSE_SUCCESS text]
      | Inl err \<Rightarrow>
          [SET_ERROR (case err of
                        ErrorObject message \<Rightarrow> message
                      | OtherValue \<Rightarrow> js ''Failed to read or parse the uploaded file.'')])"

definition handleTextChange :: "jsstring \<Rightarrow> AppAction list" where
  "handleTextChange v = [SET_TEXT_CONTENT v]"

text \<open>
  One item of the translation stream, as \<open>handleTranslate\<close> reads it: \<open>chunk.text\<close>
  and \<open>chunk.promptFeedback?.blockReason\<close> (\<open>None\<close> when \<open>promptFeedback\<close> or its
  \<open>blockReason\<close> is absent). The stream itself is external: it delivers its chunks in
  order and then either ends or throws; a failure of \<open>translateDocumentStream\<close> before
  the first chunk is a stream with no chunk that throws.
\<close>

record Chunk =
  chunkText :: jsstring
  blockReason :: "jsstring option"

record Stream =
  chunks :: "Chunk list"
  failure :: "Thrown option"

text \<open>The test \<open>chunk.promptFeedback?.blockReason\<close>: present and a non-empty string.\<close>

definition hasBlockReason :: "Chunk \<Rightarrow> bool" where
  "hasBlockReason chunk = (case blockReason chunk of None \<Rightarrow> False | Some r \<Rightarrow> r \<noteq> [])"

text \<open>Whether a stream has a first chunk and that chunk passes the test.\<close>

definition firstBlocked :: "Chunk list \<Rightarrow> bool" where
  "firstBlocked cs = (case cs of [] \<Rightarrow> False | chunk # _ \<Rightarrow> hasBlockReason chunk)"

definition blockedMessage :: "jsstring \<Rightarrow> jsstring" where
  "blockedMessage r =
     js ''Translation was blocked due to: '' @ r @
     js ''. This may be due to the document's content.''"

text \<open>
  The \<open>for await\<close> loop with its flag \<open>firstChunk\<close>: the dispatches made so far, and
  \<open>Inl\<close> what was thrown or \<open>Inr ()\<close> when the stream ended. \<open>emit\<close> is the dispatch
  of the chunk's text in front of what the rest of the loop does.
\<close>

definition emit :: "Chunk \<Rightarrow> AppAction list \<times> (Thrown + unit) \<Rightarrow> AppAction list \<times> (Thrown + unit)" where
  "emit chunk later = (TRANSLATION_CHUNK (chunkText chunk) # fst later, snd later)"

fun forAwait :: "bool \<Rightarrow> Chunk list \<Rightarrow> Thrown option \<Rightarrow> AppAction list \<times> (Thrown + unit)" where
  "forAwait firstChunk [] None = ([], Inr ())"
| "forAwait firstChunk [] (Some err) = ([], Inl err)"
| "forAwait firstChunk (chunk # rest) fl =
     (case blockReason chunk of
        Some r \<Rightarrow>
          if firstChunk \<and> r \<noteq> []
          then ([], Inl (ErrorObject (blockedMessage r)))
          else emit chunk (forAwait False rest fl)
      | None \<Rightarrow> emit chunk (forAwait False rest fl))"

text \<open>
  \<open>handleTranslate\<close>, called with the state of the render it was created in and the
  stream that \<open>translateDocumentStream\<close> returns for it.
\<close>

definition handleTranslate :: "AppState \<Rightarrow> Stream \<Rightarrow> AppAction list" where
  "handleTranslate state stream =
     (if fileContent state = []
      then [SET_ERROR (js ''No content to translate. The document might be empty or failed to parse.'')]
      else TRANSLATE #
        (case forAwait True (chunks stream) (failure stream) of
           (ds, Inr u) \<Rightarrow> ds @ [TRANSLATION_COMPLETE]
         | (ds, Inl err) \<Rightarrow>
             ds @ [SET_ERROR (case err of
                                ErrorObject message \<Rightarrow> message
                              | OtherValue \<Rightarrow> js ''An unknown error occurred during translation.'')]))"

text \<open>The state of the store after a call of \<open>handleTranslate\<close>.\<close>

definition runTranslate :: "AppState \<Rightarrow> Stream \<Rightarrow> AppState" where
  "runTranslate state stream = dispatchAll state (handleTranslate state stream)"

text \<open>
  The handlers dispatch \<open>TRANSLATION_CHUNK\<close> only after \<open>TRANSLATE\<close>, while the status
  is \<open>translating\<close>, and \<open>PARSE_SUCCESS\<close> only after \<open>START_PARSING\<close>, while it is
  \<open>parsing\<close>. \<open>inOrder s as\<close> says that the events \<open>as\<close>, applied from \<open>s\<close>, keep to
  that order.
\<close>

fun inOrder :: "AppState \<Rightarrow> AppAction list \<Rightarrow> bool" where
  "inOrder s [] = True"
| "inOrder s (TRANSLATION_CHUNK payload # as) =
     (status s = Translating \<and> inOrder (appReducer s (TRANSLATION_CHUNK payload)) as)"
| "inOrder s (PARSE_SUCCESS payload # as) =
     (status s = Parsing \<and> inOrder (appReducer s (PARSE_SUCCESS payload)) as)"
| "inOrder s (a # as) = inOrder (appReducer s a) as"

section \<open>Paragraphs and the bilingual document (handleDownload)\<close>

text \<open>
  What the regular expression class \<open>\s\<close> and \<open>String.prototype.trim\<close> take for white
  space: the white space and line terminator code units of ECMAScript.
\<close>

definition isWhiteSpace :: "16 word \<Rightarrow> bool" where
  "isWhiteSpace c =
     (c = 0x09 \<or> c = 0x0A \<or> c = 0x0B \<or> c = 0x0C \<or> c = 0x0D \<or> c = 0x20 \<or> c = 0xA0
      \<or> c = 0x1680 \<or> (0x2000 \<le> c \<and> c \<le> 0x200A) \<or> c = 0x2028 \<or> c = 0x2029
      \<or> c = 0x202F \<or> c = 0x205F \<or> c = 0x3000 \<or> c = 0xFEFF)"

definition trim :: "jsstring \<Rightarrow> jsstring" where
  "trim s = rev (dropWhile isWhiteSpace (rev (dropWhile isWhiteSpace s)))"

text \<open>
  The pattern \<open>/\r?\n\s*\r?\n/\<close> matched at the start of a string, with the number of
  code units it consumes. \<open>matchNewline\<close> is \<open>\r?\n\<close>: the optional \<open>\r\<close> is taken
  when it is there. \<open>\s*\<close> is greedy: \<open>matchRest\<close> tries the longest run of white space
  first and gives one code unit back at a time until \<open>\r?\n\<close> matches behind it.
\<close>

definition matchNewline :: "jsstring \<Rightarrow> nat option" where
  "matchNewline s =
     (case s of
        c # d # _ \<Rightarrow> if c = 0x0D \<and> d = 0x0A then Some 2 else if c = 0x0A then Some 1 else None
      | [c] \<Rightarrow> if c = 0x0A then Some 1 else None
      | [] \<Rightarrow> None)"

fun matchRest :: "jsstring \<Rightarrow> nat \<Rightarrow> nat option" where
  "matchRest s 0 = matchNewline s"
| "matchRest s (Suc k) =
     (case matchNewline (drop (Suc k) s) of
        Some m \<Rightarrow> Some (Suc k + m)
      | None \<Rightarrow> matchRest s k)"

definition matchSeparator :: "jsstring \<Rightarrow> nat option" where
  "matchSeparator s =
     (case matchNewline s of
        None \<Rightarrow> None
      | Some m \<Rightarrow>
          (case matchRest (drop m s) (length (takeWhile isWhiteSpace (drop m s))) of
             None \<Rightarrow> None
           | Some e \<Rightarrow> Some (m + e)))"

lemma matchNewline_positive: "matchNewline s = Some m \<Longrightarrow> 0 < m"
  by (auto simp: matchNewline_def split: list.splits if_splits)

lemma matchSeparator_positive: "matchSeparator s = Some m \<Longrightarrow> 0 < m"
  by (auto simp: matchSeparator_def split: option.splits dest: matchNewline_positive)

text \<open>
  \<open>String.prototype.split\<close> with that pattern and no limit, as ECMAScript defines it:
  \<open>p\<close> is the start of the current piece, \<open>q\<close> the position where a match is tried;
  a match that ends at \<open>p\<close> is skipped, any other one closes the piece. The loop ends
  because a match of the pattern is never empty.
\<close>

function splitLoop :: "jsstring \<Rightarrow> nat \<Rightarrow> nat \<Rightarrow> jsstring list" where
  "splitLoop S p q =
     (if q < length S
      then (case matchSeparator (drop q S) of
              None \<Rightarrow> splitLoop S p (q + 1)
            | Some m \<Rightarrow>
                if q + m = p then splitLoop S p (q + 1)
                else take (q - p) (drop p S) # splitLoop S (q + m) (q + m))
      else [drop p S])"
  by pat_completeness auto
termination
  by (relation "measure (\<lambda>(S, p, q). length S - q)") (auto dest: matchSeparator_positive)

definition split :: "jsstring \<Rightarrow> jsstring list" where
  "split S = splitLoop S 0 0"

text \<open>\<open>text.split(/\r?\n\s*\r?\n/).filter(p => p.trim() !== '')\<close>\<close>

definition paragraphs :: "jsstring \<Rightarrow> jsstring list" where
  "paragraphs t = filter (\<lambda>p. trim p \<noteq> []) (split t)"

text \<open>\<open>Number.prototype.toString\<close> of a natural number, as the template literal applies it.\<close>

function toString :: "nat \<Rightarrow> jsstring" where
  "toString n = (if n < 10 then [0x30 + of_nat n] else toString (n div 10) @ [0x30 + of_nat (n mod 10)])"
  by pat_completeness auto
termination
  by (relation "measure id") auto

text \<open>
  The fixed texts of the bilingual document: the labels of the two sides (each ends with a
  line feed), the text that stands for a missing paragraph, and the block of one pair under
  its header with the 1-based number of the pair.
\<close>

definition originalLabel :: jsstring where
  "originalLabel = [0x539F, 0x6587, 0xFF1A, 0x0A]"

definition translatedLabel :: jsstring where
  "translatedLabel = [0x8BD1, 0x6587, 0xFF1A, 0x0A]"

definition missingParagraph :: jsstring where
  "missingParagraph =
     [0x5B, 0x2E, 0x2E, 0x2E, 0x6BB5, 0x843D, 0x7F3A, 0x5931, 0x2E, 0x2E, 0x2E, 0x5D]"

text \<open>
  \<open>paras[i] ? label + paras[i] : label + missing\<close>: an index past the end reads
  \<open>undefined\<close>, and both \<open>undefined\<close> and the empty string are falsy.
\<close>

definition side :: "jsstring \<Rightarrow> jsstring list \<Rightarrow> nat \<Rightarrow> jsstring" where
  "side label paras i =
     (if i < length paras \<and> paras ! i \<noteq> [] then label @ paras ! i
      else label @ missingParagraph)"

definition paragraphBlock :: "nat \<Rightarrow> jsstring \<Rightarrow> jsstring \<Rightarrow> jsstring" where
  "paragraphBlock i original translated =
     [0x2D, 0x2D, 0x2D, 0x20, 0x6BB5, 0x843D, 0x20] @ toString (i + 1) @
     [0x20, 0x2D, 0x2D, 0x2D, 0x0A, 0x0A] @ original @ [0x0A, 0x0A] @ translated"

text \<open>The \<open>for\<close> loop that pushes one block per index onto \<open>bilingualContent\<close>.\<close>

function composeLoop ::
  "jsstring list \<Rightarrow> jsstring list \<Rightarrow> nat \<Rightarrow> nat \<Rightarrow> jsstring list \<Rightarrow> jsstring list" where
  "composeLoop originalParas translatedParas maxLength i bilingualContent =
     (if i < maxLength
      then composeLoop originalParas translatedParas maxLength (i + 1)
             (bilingualContent @
              [paragraphBlock i (side originalLabel originalParas i)
                                (side translatedLabel translatedParas i)])
      else bilingualContent)"
  by pat_completeness auto
termination
  by (relation "measure (\<lambda>(originalParas, translatedParas, maxLength, i, b). maxLength - i)") auto

definition bilingualBlocks :: "jsstring list \<Rightarrow> jsstring list \<Rightarrow> jsstring list" where
  "bilingualBlocks originalParas translatedParas =
     composeLoop originalParas translatedParas
       (max (length originalParas) (length translatedParas)) 0 []"

text \<open>\<open>Array.prototype.join\<close>\<close>

fun join :: "jsstring \<Rightarrow> jsstring list \<Rightarrow> jsstring" where
  "join sep [] = []"
| "join sep [x] = x"
| "join sep (x # y # ys) = x @ sep @ join sep (y # ys)"

text \<open>
  The content that \<open>handleDownload\<close> puts into the file: nothing unless the status is
  \<open>complete\<close> and there is a translation; the translation itself, or in bilingual mode
  the blocks of the paragraph pairs joined by three line feeds.
\<close>

definition bilingualDocument :: "jsstring \<Rightarrow> jsstring \<Rightarrow> jsstring list" where
  "bilingualDocument source translated = bilingualBlocks (paragraphs source) (paragraphs translated)"

definition contentToDownload :: "AppState \<Rightarrow> jsstring option" where
  "contentToDownload state =
     (if status state \<noteq> Complete \<or> translatedText state = [] then None
      else if downloadMode state = Bilingual
      then Some (join [0x0A, 0x0A, 0x0A]
                   (bilingualDocument (fileContent state) (translatedText state)))
      else Some (translatedText state))"

section \<open>Example inputs\<close>

text \<open>
  A chunk without a block reason and one with a block reason; the state after the text
  \<open>x\<close> was pasted; and the state after that text was translated to \<open>a\<close> and the
  three settings were changed.
\<close>

definition plainChunk :: "jsstring \<Rightarrow> Chunk" where
  "plainChunk t = \<lparr>chunkText = t, blockReason = None\<rparr>"

definition blockedChunk :: "jsstring \<Rightarrow> jsstring \<Rightarrow> Chunk" where
  "blockedChunk t r = \<lparr>chunkText = t, blockReason = Some r\<rparr>"

definition pastedState :: AppState where
  "pastedState = dispatchAll initialState [SET_TEXT_CONTENT (js ''x'')]"

definition finishedState :: AppState where
  "finishedState =
     dispatchAll initialState
       [SET_TEXT_CONTENT (js ''x''), TRANSLATE, TRANSLATION_CHUNK (js ''a''),
        TRANSLATION_COMPLETE, SET_DOWNLOAD_MODE Bilingual, SET_DIRECTION ChineseToLao,
        SET_ANONYMIZE False]"

section \<open>Properties of the reducer\<close>

lemma dispatchAll_Nil [simp]: "dispatchAll s [] = s"
  by (simp add: dispatchAll_def)

lemma dispatchAll_Cons [simp]: "dispatchAll s (a # as) = dispatchAll (appReducer s a) as"
  by (simp add: dispatchAll_def)

lemma dispatchAll_append [simp]: "dispatchAll s (as @ bs) = dispatchAll (dispatchAll s as) bs"
  by (simp add: dispatchAll_def)

text \<open>
  Claim C7. Resetting from \<open>complete\<close> or \<open>error\<close> gives status \<open>idle\<close>, an empty
  source text and an empty translation, and keeps \<open>direction\<close>, \<open>anonymize\<close> and
  \<open>downloadMode\<close> as they were before the reset.
\<close>

theorem reset_from_complete_or_error:
  assumes "status s = Complete \<or> status s = Error"
  shows "status (appReducer s RESET) = Idle
       \<and> fileContent (appReducer s RESET) = []
       \<and> translatedText (appReducer s RESET) = []
       \<and> direction (appReducer s RESET) = direction s
       \<and> anonymize (appReducer s RESET) = anonymize s
       \<and> downloadMode (appReducer s RESET) = downloadMode s"
  by (simp add: initialState_def)

text \<open>
  The theorem at the state that a finished translation followed by a change of each
  setting leaves: the reset empties the document and keeps the three settings.
\<close>

theorem reset_from_complete_or_error_witness:
  "status finishedState = Complete
   \<and> status (appReducer finishedState RESET) = Idle
   \<and> fileContent (appReducer finishedState RESET) = []
   \<and> translatedText (appReducer finishedState RESET) = []
   \<and> direction (appReducer finishedState RESET) = ChineseToLao
   \<and> anonymize (appReducer finishedState RESET) = False
   \<and> downloadMode (appReducer finishedState RESET) = Bilingual"
  using reset_from_complete_or_error [of finishedState]
  by (simp add: finishedState_def initialState_def js_def)

text \<open>
  Claim C10. On a state with non-empty source content, the event \<open>TRANSLATE\<close> sets
  \<open>translatedText\<close> to the empty string and \<open>error\<close> to null (and the status to
  \<open>translating\<close>, all other fields kept); it is the first event that \<open>handleTranslate\<close>
  dispatches, so the chunks of a run are appended to an empty buffer and the translation
  or error message of an earlier run is gone.
\<close>

theorem translate_starts_from_empty_buffer:
  assumes "fileContent s \<noteq> []"
  shows "translatedText (appReducer s TRANSLATE) = []
       \<and> error (appReducer s TRANSLATE) = None
       \<and> appReducer s TRANSLATE = s\<lparr>status := Translating, error := None, translatedText := []\<rparr>
       \<and> take 1 (handleTranslate s stream) = [TRANSLATE]
       \<and> translatedText (dispatchAll s (TRANSLATE # map TRANSLATION_CHUNK ts)) = concat ts"
proof -
  have "translatedText (dispatchAll t (map TRANSLATION_CHUNK ts)) = translatedText t @ concat ts"
    for t
    by (induction ts arbitrary: t) simp_all
  then show ?thesis
    using assms by (simp add: handleTranslate_def)
qed

text \<open>
  The theorem at a state that holds the translation \<open>a\<close> of an earlier run: the next run
  with the chunks \<open>b\<close> and \<open>c\<close> shows \<open>bc\<close>, not \<open>abc\<close>.
\<close>

theorem translate_starts_from_empty_buffer_witness:
  "fileContent finishedState \<noteq> []
   \<and> translatedText finishedState = js ''a''
   \<and> translatedText (appReducer finishedState TRANSLATE) = []
   \<and> error (appReducer finishedState TRANSLATE) = None
   \<and> translatedText (dispatchAll finishedState
        (TRANSLATE # map TRANSLATION_CHUNK [js ''b'', js ''c''])) = js ''bc''"
  using translate_starts_from_empty_buffer [of finishedState _ "[js ''b'', js ''c'']"]
  by (simp add: finishedState_def initialState_def js_def)

text \<open>
  Claim C2, as the claim states it, fails: the state after \<open>TRANSLATE\<close> and one chunk
  has status \<open>translating\<close>, and a second \<open>TRANSLATE\<close> changes it (the text received
  so far is dropped).
\<close>

theorem translate_while_translating_counterexample:
  "status (dispatchAll pastedState [TRANSLATE, TRANSLATION_CHUNK (js ''a'')]) = Translating
   \<and> appReducer (dispatchAll pastedState [TRANSLATE, TRANSLATION_CHUNK (js ''a'')]) TRANSLATE
       \<noteq> dispatchAll pastedState [TRANSLATE, TRANSLATION_CHUNK (js ''a'')]
   \<and> translatedText (dispatchAll pastedState [TRANSLATE, TRANSLATION_CHUNK (js ''a'')]) = js ''a''
   \<and> translatedText (appReducer (dispatchAll pastedState [TRANSLATE, TRANSLATION_CHUNK (js ''a'')])
        TRANSLATE) = []"
proof -
  let ?s = "dispatchAll pastedState [TRANSLATE, TRANSLATION_CHUNK (js ''a'')]"
  have t: "translatedText ?s = js ''a''" and e: "translatedText (appReducer ?s TRANSLATE) = []"
    by (simp_all add: pastedState_def initialState_def js_def)
  have "appReducer ?s TRANSLATE \<noteq> ?s"
  proof
    assume "appReducer ?s TRANSLATE = ?s"
    then have "translatedText (appReducer ?s TRANSLATE) = translatedText ?s"
      by (rule arg_cong)
    then show False
      by (simp add: pastedState_def initialState_def js_def)
  qed
  moreover have "status ?s = Translating"
    by (simp add: pastedState_def initialState_def)
  ultimately show ?thesis using t e by simp
qed

text \<open>
  Claim C2, amended. The reducer has no guard on the status (the application disables the
  translate button while the status is \<open>translating\<close>): on a state whose status is
  \<open>translating\<close>, \<open>TRANSLATE\<close> keeps the status and every other field but empties
  \<open>translatedText\<close> and sets \<open>error\<close> to null; the state is unchanged exactly when
  \<open>translatedText\<close> is already empty and \<open>error\<close> is already null.
\<close>

theorem translate_while_translating:
  assumes "status s = Translating"
  shows "appReducer s TRANSLATE = s\<lparr>error := None, translatedText := []\<rparr>
       \<and> (appReducer s TRANSLATE = s \<longleftrightarrow> translatedText s = [] \<and> error s = None)"
  using assms by (cases s) auto

text \<open>
  The theorem at the state right after the first \<open>TRANSLATE\<close>, where the buffer is still
  empty: there the second \<open>TRANSLATE\<close> changes nothing.
\<close>

theorem translate_while_translating_witness:
  "status (appReducer pastedState TRANSLATE) = Translating
   \<and> appReducer (appReducer pastedState TRANSLATE) TRANSLATE = appReducer pastedState TRANSLATE"
  using translate_while_translating [of "appReducer pastedState TRANSLATE"]
  by (simp add: pastedState_def initialState_def)

text \<open>
  Claim C3, as the claim states it, fails: the initial state has status \<open>idle\<close>, and a
  chunk that arrives there is appended to its \<open>translatedText\<close>.
\<close>

theorem stale_chunk_counterexample:
  "status initialState = Idle
   \<and> translatedText (appReducer initialState (TRANSLATION_CHUNK (js ''a''))) = js ''a''
   \<and> translatedText initialState = []
   \<and> appReducer initialState (TRANSLATION_CHUNK (js ''a'')) \<noteq> initialState"
proof -
  have "translatedText (appReducer initialState (TRANSLATION_CHUNK (js ''a''))) \<noteq> translatedText initialState"
    by (simp add: initialState_def js_def)
  then have "appReducer initialState (TRANSLATION_CHUNK (js ''a'')) \<noteq> initialState"
    by metis
  then show ?thesis
    by (simp add: initialState_def js_def)
qed

text \<open>
  Claim C3, amended. The reducer compares no session and reads no status when a chunk
  arrives: on a state whose status is not \<open>translating\<close>, \<open>TRANSLATION_CHUNK\<close> appends
  its payload to \<open>translatedText\<close> and leaves every other field as it was; the state is
  unchanged exactly when the payload is the empty string.
\<close>

theorem stale_chunk_appended:
  assumes "status s \<noteq> Translating"
  shows "appReducer s (TRANSLATION_CHUNK payload) = s\<lparr>translatedText := translatedText s @ payload\<rparr>
       \<and> status (appReducer s (TRANSLATION_CHUNK payload)) = status s
       \<and> (appReducer s (TRANSLATION_CHUNK payload) = s \<longleftrightarrow> payload = [])"
  by (cases s) auto

text \<open>
  The theorem at the state after a reset of a finished translation: a chunk with an empty
  text changes nothing, and the status stays \<open>idle\<close>.
\<close>

theorem stale_chunk_appended_witness:
  "status (appReducer finishedState RESET) \<noteq> Translating
   \<and> status (appReducer (appReducer finishedState RESET) (TRANSLATION_CHUNK [])) = Idle
   \<and> appReducer (appReducer finishedState RESET) (TRANSLATION_CHUNK [])
       = appReducer finishedState RESET"
  using stale_chunk_appended [of "appReducer finishedState RESET" "[]"]
  by (simp add: finishedState_def initialState_def)

text \<open>
  Claim C8 at a failing input. After a finished translation the download mode was set to
  \<open>bilingual\<close> and the document was reset, which keeps the mode; the next file or text
  then puts the mode back to \<open>translation\<close>, while the direction and the anonymize
  setting are kept and the document data are discarded.
\<close>

theorem new_document_resets_download_mode:
  "downloadMode (appReducer finishedState RESET) = Bilingual
   \<and> downloadMode (appReducer (appReducer finishedState RESET)
        (START_PARSING \<lparr>name = js ''a.txt'', mimeType = js ''text/plain''\<rparr>)) = Translation
   \<and> downloadMode (appReducer (appReducer finishedState RESET)
        (SET_TEXT_CONTENT (js ''y''))) = Translation
   \<and> downloadMode (appReducer finishedState
        (SET_TEXT_CONTENT (js ''y''))) = Translation
   \<and> direction (appReducer finishedState (SET_TEXT_CONTENT (js ''y''))) = ChineseToLao
   \<and> anonymize (appReducer finishedState (SET_TEXT_CONTENT (js ''y''))) = False
   \<and> translatedText (appReducer finishedState (SET_TEXT_CONTENT (js ''y''))) = []
   \<and> error (appReducer finishedState (SET_TEXT_CONTENT (js ''y''))) = None"
  by (simp add: finishedState_def initialState_def)

section \<open>Properties of a translation run\<close>

lemma chunks_appended:
  "dispatchAll t (map TRANSLATION_CHUNK ts) = t\<lparr>translatedText := translatedText t @ concat ts\<rparr>"
  by (induction ts arbitrary: t) simp_all

lemma forAwait_later:
  "forAwait False cs fl =
     (map (\<lambda>c. TRANSLATION_CHUNK (chunkText c)) cs,
      case fl of None \<Rightarrow> Inr () | Some err \<Rightarrow> Inl err)"
  by (induction cs) (auto simp: emit_def split: option.splits)

lemma forAwait_first_passed:
  "\<not> firstBlocked cs \<Longrightarrow>
   forAwait True cs fl =
     (map (\<lambda>c. TRANSLATION_CHUNK (chunkText c)) cs,
      case fl of None \<Rightarrow> Inr () | Some err \<Rightarrow> Inl err)"
  by (cases cs)
     (auto simp: firstBlocked_def hasBlockReason_def emit_def forAwait_later split: option.splits)

lemma chunk_events_appended:
  "dispatchAll t (map (\<lambda>c. TRANSLATION_CHUNK (chunkText c)) cs)
     = t\<lparr>translatedText := translatedText t @ concat (map chunkText cs)\<rparr>"
  using chunks_appended [of t "map chunkText cs"] by (simp add: comp_def)

text \<open>
  Claim C4. From a \<open>ready\<close> state, \<open>TRANSLATE\<close> followed by one \<open>TRANSLATION_CHUNK\<close>
  per chunk, in stream order, for chunks none of which carries a block reason, leaves in
  \<open>translatedText\<close> the concatenation of the chunks' texts in that order; its length is
  the sum of the lengths of the texts. These are the events that \<open>handleTranslate\<close>
  dispatches for such a stream, each chunk once and in order, before the final
  \<open>TRANSLATION_COMPLETE\<close> or \<open>SET_ERROR\<close>.
\<close>

theorem chunks_concatenated_in_order:
  assumes "status s = Ready" and "\<forall>c \<in> set cs. \<not> hasBlockReason c"
  shows "translatedText (dispatchAll s (TRANSLATE # map (\<lambda>c. TRANSLATION_CHUNK (chunkText c)) cs))
           = concat (map chunkText cs)
       \<and> length (translatedText
            (dispatchAll s (TRANSLATE # map (\<lambda>c. TRANSLATION_CHUNK (chunkText c)) cs)))
           = sum_list (map (\<lambda>c. length (chunkText c)) cs)
       \<and> (fileContent s \<noteq> [] \<longrightarrow>
            butlast (handleTranslate s \<lparr>chunks = cs, failure = fl\<rparr>)
              = TRANSLATE # map (\<lambda>c. TRANSLATION_CHUNK (chunkText c)) cs
            \<and> translatedText (runTranslate s \<lparr>chunks = cs, failure = fl\<rparr>)
              = concat (map chunkText cs))"
proof -
  have nb: "\<not> firstBlocked cs"
    using assms(2) by (cases cs) (simp_all add: firstBlocked_def)
  have len: "length (concat (map chunkText cs)) = sum_list (map (\<lambda>c. length (chunkText c)) cs)"
    by (simp add: length_concat comp_def)
  have run: "translatedText (dispatchAll s (TRANSLATE # map (\<lambda>c. TRANSLATION_CHUNK (chunkText c)) cs))
               = concat (map chunkText cs)"
    by (simp add: chunk_events_appended)
  have "butlast (handleTranslate s \<lparr>chunks = cs, failure = fl\<rparr>)
          = TRANSLATE # map (\<lambda>c. TRANSLATION_CHUNK (chunkText c)) cs
        \<and> translatedText (runTranslate s \<lparr>chunks = cs, failure = fl\<rparr>) = concat (map chunkText cs)"
    if "fileContent s \<noteq> []"
    using that nb
    by (cases fl)
       (simp_all add: handleTranslate_def runTranslate_def forAwait_first_passed
          chunk_events_appended butlast_append)
  with run len show ?thesis by simp
qed

text \<open>
  The theorem at the pasted text \<open>x\<close> and the two chunks \<open>ab\<close> and \<open>c\<close>: the run ends
  with the translation \<open>abc\<close>, of length 3.
\<close>

theorem chunks_concatenated_in_order_witness:
  "status pastedState = Ready
   \<and> \<not> hasBlockReason (plainChunk (js ''ab'')) \<and> \<not> hasBlockReason (plainChunk (js ''c''))
   \<and> fileContent pastedState \<noteq> []
   \<and> translatedText (dispatchAll pastedState
        [TRANSLATE, TRANSLATION_CHUNK (js ''ab''), TRANSLATION_CHUNK (js ''c'')]) = js ''abc''
   \<and> length (translatedText (dispatchAll pastedState
        [TRANSLATE, TRANSLATION_CHUNK (js ''ab''), TRANSLATION_CHUNK (js ''c'')])) = 3
   \<and> handleTranslate pastedState
        \<lparr>chunks = [plainChunk (js ''ab''), plainChunk (js ''c'')], failure = None\<rparr>
       = [TRANSLATE, TRANSLATION_CHUNK (js ''ab''), TRANSLATION_CHUNK (js ''c''),
          TRANSLATION_COMPLETE]
   \<and> translatedText (runTranslate pastedState
        \<lparr>chunks = [plainChunk (js ''ab''), plainChunk (js ''c'')], failure = None\<rparr>) = js ''abc''"
  using chunks_concatenated_in_order
    [of pastedState "[plainChunk (js ''ab''), plainChunk (js ''c'')]" None]
  by (simp add: pastedState_def initialState_def js_def plainChunk_def hasBlockReason_def
        handleTranslate_def emit_def)

lemma handleTranslate_passed:
  assumes "fileContent s \<noteq> []" and "\<not> firstBlocked (chunks st)"
  shows "handleTranslate s st =
           TRANSLATE # map (\<lambda>c. TRANSLATION_CHUNK (chunkText c)) (chunks st) @
           [case failure st of
              None \<Rightarrow> TRANSLATION_COMPLETE
            | Some (ErrorObject message) \<Rightarrow> SET_ERROR message
            | Some OtherValue \<Rightarrow> SET_ERROR (js ''An unknown error occurred during translation.'')]"
  using assms
  by (simp add: handleTranslate_def forAwait_first_passed split: option.splits Thrown.splits)

lemma handleTranslate_blocked:
  assumes "fileContent s \<noteq> []" and "chunks st = c # cs" and "blockReason c = Some r"
    and "r \<noteq> []"
  shows "handleTranslate s st = [TRANSLATE, SET_ERROR (blockedMessage r)]"
  using assms by (simp add: handleTranslate_def)

text \<open>
  Claim C5, as the claim states it, fails: in the stream of the chunk \<open>a\<close> and then the
  chunk \<open>b\<close> that carries the block reason \<open>SAFETY\<close>, ended normally, the second chunk
  carries a block reason, and the run ends in status \<open>complete\<close> with the translation
  \<open>ab\<close>.
\<close>

theorem later_block_reason_counterexample:
  "hasBlockReason (blockedChunk (js ''b'') (js ''SAFETY''))
   \<and> status (appReducer pastedState TRANSLATE) = Translating
   \<and> status (runTranslate pastedState
        \<lparr>chunks = [plainChunk (js ''a''), blockedChunk (js ''b'') (js ''SAFETY'')],
         failure = None\<rparr>) = Complete
   \<and> translatedText (runTranslate pastedState
        \<lparr>chunks = [plainChunk (js ''a''), blockedChunk (js ''b'') (js ''SAFETY'')],
         failure = None\<rparr>) = js ''ab''"
  by (simp add: runTranslate_def handleTranslate_def pastedState_def initialState_def
        plainChunk_def blockedChunk_def hasBlockReason_def emit_def js_def)

text \<open>
  Claim C5, amended. \<open>handleTranslate\<close> looks for a block reason in the first chunk only
  (its flag \<open>firstChunk\<close>). A run on non-empty content ends in status \<open>error\<close> when
  the first chunk carries a block reason or the stream raises a failure, and in status
  \<open>complete\<close> otherwise, that is exactly when the stream ended normally and its first
  chunk carried no block reason. Unless the first chunk is blocked, every chunk, also a
  later one that carries a block reason, keeps the status \<open>translating\<close> with its text
  appended: after \<open>TRANSLATE\<close> and the first \<open>k\<close> chunks the state has status
  \<open>translating\<close> and the texts of these \<open>k\<close> chunks as its translation, and the run
  ends with the texts of all chunks.
\<close>

theorem translate_run_outcome:
  assumes "fileContent s \<noteq> []"
  shows "status (runTranslate s st)
           = (if firstBlocked (chunks st) \<or> failure st \<noteq> None then Error else Complete)
       \<and> translatedText (runTranslate s st)
           = (if firstBlocked (chunks st) then [] else concat (map chunkText (chunks st)))
       \<and> (\<not> firstBlocked (chunks st) \<longrightarrow>
            (\<forall>k \<le> length (chunks st).
               dispatchAll s (take (Suc k) (handleTranslate s st))
                 = s\<lparr>status := Translating, error := None,
                     translatedText := concat (map chunkText (take k (chunks st)))\<rparr>))"
proof (cases "firstBlocked (chunks st)")
  case True
  then obtain c cs r where "chunks st = c # cs" "blockReason c = Some r" "r \<noteq> []"
    by (auto simp: firstBlocked_def hasBlockReason_def split: list.splits option.splits)
  then have "handleTranslate s st = [TRANSLATE, SET_ERROR (blockedMessage r)]"
    using assms by (rule handleTranslate_blocked [rotated])
  with True show ?thesis
    by (simp add: runTranslate_def)
next
  case False
  note h = handleTranslate_passed [OF assms False]
  have fin: "status (runTranslate s st) = (if failure st \<noteq> None then Error else Complete)
           \<and> translatedText (runTranslate s st) = concat (map chunkText (chunks st))"
    by (simp add: runTranslate_def h chunk_events_appended split: option.splits Thrown.splits)
  have steps: "dispatchAll s (take (Suc k) (handleTranslate s st))
                 = s\<lparr>status := Translating, error := None,
                     translatedText := concat (map chunkText (take k (chunks st)))\<rparr>"
    if "k \<le> length (chunks st)" for k
  proof -
    have "take (Suc k) (handleTranslate s st)
            = TRANSLATE # map (\<lambda>c. TRANSLATION_CHUNK (chunkText c)) (take k (chunks st))"
      using that by (simp add: h take_map)
    then show ?thesis
      by (simp add: chunk_events_appended)
  qed
  from False fin steps show ?thesis by simp
qed

text \<open>
  The theorem at the stream of the chunk \<open>a\<close> and the chunk \<open>b\<close> with the block reason
  \<open>SAFETY\<close> that then raises a failure: the run ends in status \<open>error\<close> with the
  translation \<open>ab\<close>, and had status \<open>translating\<close> and the translation \<open>ab\<close> after
  the second chunk.
\<close>

theorem translate_run_outcome_witness:
  "fileContent pastedState \<noteq> []
   \<and> \<not> firstBlocked [plainChunk (js ''a''), blockedChunk (js ''b'') (js ''SAFETY'')]
   \<and> status (runTranslate pastedState
        \<lparr>chunks = [plainChunk (js ''a''), blockedChunk (js ''b'') (js ''SAFETY'')],
         failure = Some (ErrorObject (js ''e''))\<rparr>) = Error
   \<and> translatedText (runTranslate pastedState
        \<lparr>chunks = [plainChunk (js ''a''), blockedChunk (js ''b'') (js ''SAFETY'')],
         failure = Some (ErrorObject (js ''e''))\<rparr>) = js ''ab''
   \<and> status (dispatchAll pastedState (take 3 (handleTranslate pastedState
        \<lparr>chunks = [plainChunk (js ''a''), blockedChunk (js ''b'') (js ''SAFETY'')],
         failure = Some (ErrorObject (js ''e''))\<rparr>))) = Translating
   \<and> translatedText (dispatchAll pastedState (take 3 (handleTranslate pastedState
        \<lparr>chunks = [plainChunk (js ''a''), blockedChunk (js ''b'') (js ''SAFETY'')],
         failure = Some (ErrorObject (js ''e''))\<rparr>))) = js ''ab''"
proof -
  let ?st = "\<lparr>chunks = [plainChunk (js ''a''), blockedChunk (js ''b'') (js ''SAFETY'')],
              failure = Some (ErrorObject (js ''e''))\<rparr>"
  have c: "fileContent pastedState \<noteq> []"
    by (simp add: pastedState_def initialState_def js_def)
  have nb: "\<not> firstBlocked (chunks ?st)"
    by (simp add: firstBlocked_def plainChunk_def hasBlockReason_def)
  note t = translate_run_outcome [OF c, of ?st]
  from t nb have fin: "status (runTranslate pastedState ?st) = Error"
    "translatedText (runTranslate pastedState ?st) = concat (map chunkText (chunks ?st))"
    by simp_all
  have "dispatchAll pastedState (take (Suc 2) (handleTranslate pastedState ?st))
          = pastedState\<lparr>status := Translating, error := None,
              translatedText := concat (map chunkText (take 2 (chunks ?st)))\<rparr>"
    by (rule t [THEN conjunct2, THEN conjunct2, rule_format, OF nb]) simp
  then have "dispatchAll pastedState (take 3 (handleTranslate pastedState ?st))
          = pastedState\<lparr>status := Translating, error := None,
              translatedText := concat (map chunkText (take 2 (chunks ?st)))\<rparr>"
    by (simp add: eval_nat_numeral)
  with fin c nb show ?thesis
    by (simp add: plainChunk_def blockedChunk_def js_def)
qed

text \<open>
  Claim C6. In a translation run (one on non-empty content) whose first chunk carries a
  block reason, no chunk is dispatched: the run is \<open>TRANSLATE\<close> followed by
  \<open>SET_ERROR\<close>, and it ends with an empty \<open>translatedText\<close>, status \<open>error\<close> and an
  error message that has the block reason between its two fixed parts.
\<close>

theorem first_chunk_blocked:
  assumes "fileContent s \<noteq> []" and "chunks st = c # cs" and "blockReason c = Some r"
    and "r \<noteq> []"
  shows "translatedText (runTranslate s st) = []
       \<and> status (runTranslate s st) = Error
       \<and> error (runTranslate s st)
           = Some (js ''Translation was blocked due to: '' @ r @
                   js ''. This may be due to the document's content.'')
       \<and> handleTranslate s st = [TRANSLATE, SET_ERROR (blockedMessage r)]"
  by (simp add: runTranslate_def handleTranslate_blocked [OF assms] blockedMessage_def)

text \<open>
  The theorem at a stream whose first chunk has the text \<open>a\<close> and the block reason
  \<open>SAFETY\<close>, run on a state that still holds the translation of an earlier run.
\<close>

theorem first_chunk_blocked_witness:
  "fileContent finishedState \<noteq> []
   \<and> translatedText (runTranslate finishedState
        \<lparr>chunks = [blockedChunk (js ''a'') (js ''SAFETY''), plainChunk (js ''b'')],
         failure = None\<rparr>) = []
   \<and> status (runTranslate finishedState
        \<lparr>chunks = [blockedChunk (js ''a'') (js ''SAFETY''), plainChunk (js ''b'')],
         failure = None\<rparr>) = Error
   \<and> error (runTranslate finishedState
        \<lparr>chunks = [blockedChunk (js ''a'') (js ''SAFETY''), plainChunk (js ''b'')],
         failure = None\<rparr>)
       = Some (js ''Translation was blocked due to: SAFETY. This may be due to the document's content.'')"
proof -
  have c: "fileContent finishedState \<noteq> []"
    by (simp add: finishedState_def initialState_def js_def)
  have r: "js ''SAFETY'' \<noteq> []"
    by (simp add: js_def)
  from first_chunk_blocked [OF c _ _ r,
      of "\<lparr>chunks = [blockedChunk (js ''a'') (js ''SAFETY''), plainChunk (js ''b'')],
           failure = None\<rparr>"
         "blockedChunk (js ''a'') (js ''SAFETY'')" "[plainChunk (js ''b'')]"]
  show ?thesis
    using c by (simp add: blockedChunk_def js_def)
qed

section \<open>The invariant of the translation buffer\<close>

lemma buffer_invariant_step:
  assumes "translatedText s \<noteq> [] \<longrightarrow> status s \<in> {Translating, Complete, Error}"
    and "inOrder s [a]"
  shows "translatedText (appReducer s a) \<noteq> []
           \<longrightarrow> status (appReducer s a) \<in> {Translating, Complete, Error}"
  using assms by (cases a) (auto simp: initialState_def)

lemma inOrder_Cons: "inOrder s (a # as) \<longleftrightarrow> inOrder s [a] \<and> inOrder (appReducer s a) as"
  by (cases a) auto

lemma inOrder_append:
  "inOrder s (as @ bs) \<longleftrightarrow> inOrder s as \<and> inOrder (dispatchAll s as) bs"
proof (induction as arbitrary: s)
  case Nil
  show ?case by simp
next
  case (Cons a as)
  have "inOrder s ((a # as) @ bs) \<longleftrightarrow> inOrder s [a] \<and> inOrder (appReducer s a) (as @ bs)"
    using inOrder_Cons [of s a "as @ bs"] by simp
  also have "\<dots> \<longleftrightarrow> inOrder s [a] \<and> inOrder (appReducer s a) as
                    \<and> inOrder (dispatchAll (appReducer s a) as) bs"
    using Cons.IH by simp
  also have "\<dots> \<longleftrightarrow> inOrder s (a # as) \<and> inOrder (dispatchAll s (a # as)) bs"
    using inOrder_Cons [of s a as] by simp
  finally show ?case .
qed

lemma buffer_invariant:
  assumes "translatedText s \<noteq> [] \<longrightarrow> status s \<in> {Translating, Complete, Error}"
    and "inOrder s evs"
  shows "translatedText (dispatchAll s evs) \<noteq> []
           \<longrightarrow> status (dispatchAll s evs) \<in> {Translating, Complete, Error}"
  using assms
proof (induction evs arbitrary: s)
  case Nil
  then show ?case by simp
next
  case (Cons a evs)
  from Cons.prems(2) have one: "inOrder s [a]" and rest: "inOrder (appReducer s a) evs"
    using inOrder_Cons [of s a evs] by simp_all
  from buffer_invariant_step [OF Cons.prems(1) one] rest
  have "translatedText (dispatchAll (appReducer s a) evs) \<noteq> []
          \<longrightarrow> status (dispatchAll (appReducer s a) evs) \<in> {Translating, Complete, Error}"
    by (rule Cons.IH)
  then show ?case by simp
qed

text \<open>The handlers keep to the order that \<open>inOrder\<close> describes, from every state.\<close>

lemma chunk_events_inOrder:
  "status t = Translating \<Longrightarrow> inOrder t (map (\<lambda>c. TRANSLATION_CHUNK (chunkText c)) cs)"
  by (induction cs arbitrary: t) simp_all

lemma handleTranslate_inOrder: "inOrder s (handleTranslate s st)"
proof (cases "fileContent s = []")
  case True
  then show ?thesis by (simp add: handleTranslate_def)
next
  case content: False
  show ?thesis
  proof (cases "firstBlocked (chunks st)")
    case True
    then obtain c cs r where "chunks st = c # cs" "blockReason c = Some r" "r \<noteq> []"
      by (auto simp: firstBlocked_def hasBlockReason_def split: list.splits option.splits)
    with content have "handleTranslate s st = [TRANSLATE, SET_ERROR (blockedMessage r)]"
      by (rule handleTranslate_blocked)
    then show ?thesis by simp
  next
    case False
    have "inOrder (appReducer s TRANSLATE)
            (map (\<lambda>c. TRANSLATION_CHUNK (chunkText c)) (chunks st))"
      by (rule chunk_events_inOrder) simp
    then show ?thesis
      by (simp add: handleTranslate_passed [OF content False] inOrder_append
            split: option.splits Thrown.splits)
  qed
qed

lemma handleFileSelect_inOrder: "inOrder s (handleFileSelect f parsed)"
  by (cases parsed) (simp_all add: handleFileSelect_def initialState_def)

text \<open>
  Claim C1, as the claim states it, fails: the run of \<open>handleTranslate\<close> on the pasted
  text \<open>x\<close> whose stream delivers the chunk \<open>a\<close> and then raises a failure ends in a
  state with status \<open>error\<close> and the non-empty translation \<open>a\<close>.
\<close>

theorem error_state_with_translation_counterexample:
  "status (runTranslate (dispatchAll initialState (handleTextChange (js ''x'')))
      \<lparr>chunks = [plainChunk (js ''a'')], failure = Some (ErrorObject (js ''e''))\<rparr>) = Error
   \<and> translatedText (runTranslate (dispatchAll initialState (handleTextChange (js ''x'')))
      \<lparr>chunks = [plainChunk (js ''a'')], failure = Some (ErrorObject (js ''e''))\<rparr>) = js ''a''
   \<and> js ''a'' \<noteq> []"
  by (simp add: runTranslate_def handleTranslate_def handleTextChange_def initialState_def
        plainChunk_def emit_def js_def)

text \<open>
  Claim C1, amended. \<open>SET_ERROR\<close> keeps the translation received so far, and the reducer
  itself accepts every event in every status. For every state reached from the initial
  state by events in which each \<open>TRANSLATION_CHUNK\<close> is applied in status
  \<open>translating\<close> and each \<open>PARSE_SUCCESS\<close> in status \<open>parsing\<close> (the order in which
  \<open>handleTranslate\<close> and \<open>handleFileSelect\<close> dispatch them), \<open>translatedText\<close> is
  non-empty only if the status is \<open>translating\<close>, \<open>complete\<close> or \<open>error\<close>: no such
  sequence gives a state with status \<open>idle\<close>, \<open>parsing\<close> or \<open>ready\<close> and a non-empty
  \<open>translatedText\<close>.
\<close>

theorem translation_nonempty_only_if:
  assumes "inOrder initialState evs"
  shows "(translatedText (dispatchAll initialState evs) \<noteq> []
            \<longrightarrow> status (dispatchAll initialState evs) \<in> {Translating, Complete, Error})
       \<and> (status (dispatchAll initialState evs) \<in> {Idle, Parsing, Ready}
            \<longrightarrow> translatedText (dispatchAll initialState evs) = [])"
proof -
  have "translatedText initialState \<noteq> [] \<longrightarrow> status initialState \<in> {Translating, Complete, Error}"
    by (simp add: initialState_def)
  from buffer_invariant [OF this assms] show ?thesis
    by auto
qed

text \<open>
  The theorem at the events of a pasted text, a translation that fails after its first
  chunk, and a change of the direction: they keep to the order, and leave the non-empty
  translation \<open>a\<close> in a state with status \<open>error\<close>.
\<close>

theorem translation_nonempty_only_if_witness:
  "inOrder initialState
     [SET_TEXT_CONTENT (js ''x''), TRANSLATE, TRANSLATION_CHUNK (js ''a''),
      SET_ERROR (js ''e''), SET_DIRECTION ChineseToLao]
   \<and> translatedText (dispatchAll initialState
       [SET_TEXT_CONTENT (js ''x''), TRANSLATE, TRANSLATION_CHUNK (js ''a''),
        SET_ERROR (js ''e''), SET_DIRECTION ChineseToLao]) \<noteq> []
   \<and> status (dispatchAll initialState
       [SET_TEXT_CONTENT (js ''x''), TRANSLATE, TRANSLATION_CHUNK (js ''a''),
        SET_ERROR (js ''e''), SET_DIRECTION ChineseToLao]) \<in> {Translating, Complete, Error}"
proof -
  have o: "inOrder initialState
     [SET_TEXT_CONTENT (js ''x''), TRANSLATE, TRANSLATION_CHUNK (js ''a''),
      SET_ERROR (js ''e''), SET_DIRECTION ChineseToLao]"
    by (simp add: initialState_def)
  have n: "translatedText (dispatchAll initialState
       [SET_TEXT_CONTENT (js ''x''), TRANSLATE, TRANSLATION_CHUNK (js ''a''),
        SET_ERROR (js ''e''), SET_DIRECTION ChineseToLao]) \<noteq> []"
    by (simp add: initialState_def js_def)
  from translation_nonempty_only_if [OF o] n o show ?thesis
    by blast
qed

section \<open>Properties of the bilingual document\<close>

lemma composeLoop_blocks:
  "composeLoop originalParas translatedParas maxLength i acc =
     acc @ map (\<lambda>j. paragraphBlock j (side originalLabel originalParas j)
                                      (side translatedLabel translatedParas j))
               [i..<maxLength]"
proof (induction originalParas translatedParas maxLength i acc rule: composeLoop.induct)
  case (1 originalParas translatedParas maxLength i acc)
  show ?case
  proof (cases "i < maxLength")
    case True
    then have "[i..<maxLength] = i # [i + 1..<maxLength]"
      by (simp add: upt_conv_Cons)
    with True "1.IH" show ?thesis
      by (subst composeLoop.simps) simp
  next
    case False
    then show ?thesis
      by (subst composeLoop.simps) simp
  qed
qed

lemma trim_empty: "trim [] = []"
  by (simp add: trim_def)

lemma paragraphs_not_empty: "p \<in> set (paragraphs t) \<Longrightarrow> p \<noteq> []"
  by (auto simp: paragraphs_def trim_empty)

lemma side_paragraphs:
  "side label (paragraphs t) i =
     label @ (if i < length (paragraphs t) then paragraphs t ! i else missingParagraph)"
  using paragraphs_not_empty [of "paragraphs t ! i" t]
  by (auto simp: side_def)

text \<open>
  Claim C9. For every pair of texts, equal in their numbers of paragraphs or not, the
  bilingual document has as many blocks as the longer of the two paragraph sequences, and
  the block at index \<open>i\<close> pairs the paragraphs at index \<open>i\<close> of both, with no
  index shifted. The block is, in code units: the header (three hyphens, the two-character
  word for paragraph, the number \<open>i + 1\<close>, three hyphens), a blank line, the label of the
  original with the original paragraph, a blank line, and the label of the translation
  with the translated paragraph; a side that has no paragraph at that index has the
  bracketed text for a missing paragraph in its place.
\<close>

theorem bilingual_blocks_paired:
  "length (bilingualDocument source translated)
     = max (length (paragraphs source)) (length (paragraphs translated))
   \<and> (\<forall>i < max (length (paragraphs source)) (length (paragraphs translated)).
        bilingualDocument source translated ! i =
          [0x2D, 0x2D, 0x2D, 0x20, 0x6BB5, 0x843D, 0x20] @ toString (i + 1) @
          [0x20, 0x2D, 0x2D, 0x2D, 0x0A, 0x0A] @
          [0x539F, 0x6587, 0xFF1A, 0x0A] @
          (if i < length (paragraphs source) then paragraphs source ! i
           else [0x5B, 0x2E, 0x2E, 0x2E, 0x6BB5, 0x843D, 0x7F3A, 0x5931, 0x2E, 0x2E, 0x2E, 0x5D]) @
          [0x0A, 0x0A] @
          [0x8BD1, 0x6587, 0xFF1A, 0x0A] @
          (if i < length (paragraphs translated) then paragraphs translated ! i
           else [0x5B, 0x2E, 0x2E, 0x2E, 0x6BB5, 0x843D, 0x7F3A, 0x5931, 0x2E, 0x2E, 0x2E, 0x5D]))"
  by (simp add: bilingualDocument_def bilingualBlocks_def composeLoop_blocks side_paragraphs
        paragraphBlock_def originalLabel_def translatedLabel_def missingParagraph_def
        del: composeLoop.simps toString.simps)

text \<open>
  The theorem at the original \<open>A\<close>, blank line, \<open>B\<close> and the translation \<open>X\<close>: the
  paragraphs are \<open>A\<close>, \<open>B\<close> and \<open>X\<close> and there are two blocks. The first block is
  the header with the number 1 (\<open>0x31\<close>), the original \<open>A\<close> (\<open>0x41\<close>) and the
  translation \<open>X\<close> (\<open>0x58\<close>); the second is the header with the number 2 (\<open>0x32\<close>),
  the original \<open>B\<close> (\<open>0x42\<close>) and, as its translated side, the text for a missing
  paragraph. The same two paragraphs come from an original whose separator holds a carriage
  return and a space and which ends with a paragraph of white space only.
\<close>

theorem bilingual_blocks_paired_witness:
  "paragraphs [0x41, 0x0A, 0x0A, 0x42] = [[0x41], [0x42]]
   \<and> paragraphs [0x58] = [[0x58]]
   \<and> paragraphs [0x41, 0x0D, 0x0A, 0x20, 0x0A, 0x42, 0x0A, 0x0A, 0x20] = [[0x41], [0x42]]
   \<and> length (bilingualDocument [0x41, 0x0A, 0x0A, 0x42] [0x58]) = 2
   \<and> bilingualDocument [0x41, 0x0A, 0x0A, 0x42] [0x58] ! 0
       = [0x2D, 0x2D, 0x2D, 0x20, 0x6BB5, 0x843D, 0x20, 0x31, 0x20, 0x2D, 0x2D, 0x2D, 0x0A, 0x0A,
          0x539F, 0x6587, 0xFF1A, 0x0A, 0x41, 0x0A, 0x0A,
          0x8BD1, 0x6587, 0xFF1A, 0x0A, 0x58]
   \<and> bilingualDocument [0x41, 0x0A, 0x0A, 0x42] [0x58] ! 1
       = [0x2D, 0x2D, 0x2D, 0x20, 0x6BB5, 0x843D, 0x20, 0x32, 0x20, 0x2D, 0x2D, 0x2D, 0x0A, 0x0A,
          0x539F, 0x6587, 0xFF1A, 0x0A, 0x42, 0x0A, 0x0A,
          0x8BD1, 0x6587, 0xFF1A, 0x0A,
          0x5B, 0x2E, 0x2E, 0x2E, 0x6BB5, 0x843D, 0x7F3A, 0x5931, 0x2E, 0x2E, 0x2E, 0x5D]"
proof -
  have o: "paragraphs [0x41, 0x0A, 0x0A, 0x42] = [[0x41], [0x42]]"
    by (simp add: paragraphs_def split_def trim_def matchSeparator_def matchNewline_def
          isWhiteSpace_def)
  have t: "paragraphs [0x58] = [[0x58]]"
    by (simp add: paragraphs_def split_def trim_def matchSeparator_def matchNewline_def
          isWhiteSpace_def)
  have w: "paragraphs [0x41, 0x0D, 0x0A, 0x20, 0x0A, 0x42, 0x0A, 0x0A, 0x20] = [[0x41], [0x42]]"
    by (simp add: paragraphs_def split_def trim_def matchSeparator_def matchNewline_def
          isWhiteSpace_def)
  note b = bilingual_blocks_paired [of "[0x41, 0x0A, 0x0A, 0x42]" "[0x58]", unfolded o t]
  from b have len: "length (bilingualDocument [0x41, 0x0A, 0x0A, 0x42] [0x58]) = 2"
    by simp
  from b [THEN conjunct2, rule_format, of 0]
  have first: "bilingualDocument [0x41, 0x0A, 0x0A, 0x42] [0x58] ! 0
       = [0x2D, 0x2D, 0x2D, 0x20, 0x6BB5, 0x843D, 0x20, 0x31, 0x20, 0x2D, 0x2D, 0x2D, 0x0A, 0x0A,
          0x539F, 0x6587, 0xFF1A, 0x0A, 0x41, 0x0A, 0x0A,
          0x8BD1, 0x6587, 0xFF1A, 0x0A, 0x58]"
    by simp
  from b [THEN conjunct2, rule_format, of 1]
  have second: "bilingualDocument [0x41, 0x0A, 0x0A, 0x42] [0x58] ! 1
       = [0x2D, 0x2D, 0x2D, 0x20, 0x6BB5, 0x843D, 0x20, 0x32, 0x20, 0x2D, 0x2D, 0x2D, 0x0A, 0x0A,
          0x539F, 0x6587, 0xFF1A, 0x0A, 0x42, 0x0A, 0x0A,
          0x8BD1, 0x6587, 0xFF1A, 0x0A,
          0x5B, 0x2E, 0x2E, 0x2E, 0x6BB5, 0x843D, 0x7F3A, 0x5931, 0x2E, 0x2E, 0x2E, 0x5D]"
    by simp
  from o t w len first second show ?thesis
    by (simp only: simp_thms)
qed

end
